theory Spec2Isabelle
  imports Complex_Main
begin

section \<open>Data model\<close>

text \<open>
  Coordinates, angles and averages are Python floats in the program; they are modelled
  as \<^typ>\<open>real\<close>, so rounding, infinities and NaN are outside the model.
\<close>

text \<open>
  The exceptions the evaluation code can raise. \<open>EntryError\<close> stands for the exception
  raised when a history entry has the wrong shape for the current exercise (indexing a
  number, or summing and comparing tuples as if they were numbers); Python raises
  \<open>IndexError\<close>, \<open>TypeError\<close> or \<open>ValueError\<close> there, depending on the entries, and the
  model does not tell these apart.
\<close>

datatype py_error = EntryError | ZeroDivisionError

text \<open>
  The members of \<open>mp_pose.PoseLandmark\<close> the program reads. The pose estimator returns
  one landmark for every member, so the landmark list is a function on the members.
\<close>

datatype PoseLandmark =
    LEFT_EAR | RIGHT_EAR
  | LEFT_SHOULDER | RIGHT_SHOULDER
  | LEFT_ELBOW | RIGHT_ELBOW
  | LEFT_WRIST | RIGHT_WRIST
  | LEFT_HIP | LEFT_KNEE | LEFT_ANKLE

text \<open>A landmark's \<open>.x\<close> and \<open>.y\<close> attributes.\<close>

record landmark =
  lm_x :: real
  lm_y :: real

text \<open>The estimator's result object: \<open>pose_landmarks\<close> is \<open>None\<close> when no pose was found.\<close>

record results =
  pose_landmarks :: "(PoseLandmark \<Rightarrow> landmark) option"

text \<open>
  An entry of \<open>angle_history\<close>: the squat branch appends one number (a numpy scalar),
  the arm-raise and shoulder-shrug branches append a 2-tuple.
\<close>

datatype measurement = Scalar real | Pair real real

section \<open>The bounded history\<close>

text \<open>
  \<open>angle_history\<close> is created once, as \<open>deque(maxlen=10)\<close>. Appending to a deque with
  a maximum length adds the item on the right and, when the deque is then longer than
  the maximum, discards one item from the left.
\<close>

definition maxlen :: nat where
  "maxlen = 10"

definition deque_append :: "'a \<Rightarrow> 'a list \<Rightarrow> 'a list" where
  "deque_append v d = (let d' = d @ [v] in if length d' > maxlen then tl d' else d')"

text \<open>\<open>popleft\<close> is only ever called on a deque of more than 10 items, so it cannot raise.\<close>

definition popleft :: "'a list \<Rightarrow> 'a list" where
  "popleft d = tl d"

text \<open>
  The statements every measuring branch runs:
  \<^verbatim>\<open>angle_history.append(m); if len(angle_history) > 10: angle_history.popleft()\<close>
\<close>

definition push_history :: "'a \<Rightarrow> 'a list \<Rightarrow> 'a list" where
  "push_history m angle_history =
     (let h = deque_append m angle_history
      in if length h > 10 then popleft h else h)"

section \<open>The angle calculator\<close>

text \<open>
  \<open>np.arctan2(y, x)\<close>: the angle of the point \<open>(x, y)\<close>, greater than \<open>-pi\<close> and at most
  \<open>pi\<close>, and 0 at the origin.
\<close>

definition arctan2 :: "real \<Rightarrow> real \<Rightarrow> real" where
  "arctan2 y x =
     (if 0 < x then arctan (y / x)
      else if x < 0 then (if 0 \<le> y then arctan (y / x) + pi else arctan (y / x) - pi)
      else if 0 < y then pi / 2
      else if y < 0 then - (pi / 2)
      else 0)"

text \<open>A point is the two-element list \<open>[x, y]\<close> the caller builds.\<close>

type_synonym point = "real \<times> real"

definition calculate_angle :: "point \<Rightarrow> point \<Rightarrow> point \<Rightarrow> real" where
  "calculate_angle a b c =
     (let radians = arctan2 (snd c - snd b) (fst c - fst b)
                      - arctan2 (snd a - snd b) (fst a - fst b);
          angle = \<bar>radians * 180 / pi\<bar>
      in if angle > 180 then 360 - angle else angle)"

section \<open>Sums, averages and formatting\<close>

text \<open>
  \<open>a[i]\<close> on a history entry, for the indices 0 and 1 of a 2-tuple. Indexing a number
  raises.
\<close>

fun subscript :: "measurement \<Rightarrow> nat \<Rightarrow> py_error + real" where
  "subscript (Pair l r) i = (if i = 0 then Inr l else if i = 1 then Inr r else Inl EntryError)"
| "subscript (Scalar v) i = Inl EntryError"

text \<open>The list comprehension \<open>[a[i] for a in angle_history]\<close>.\<close>

fun components :: "nat \<Rightarrow> measurement list \<Rightarrow> py_error + real list" where
  "components i [] = Inr []"
| "components i (a # as) =
     (case subscript a i of
        Inl e \<Rightarrow> Inl e
      | Inr v \<Rightarrow> (case components i as of Inl e \<Rightarrow> Inl e | Inr vs \<Rightarrow> Inr (v # vs)))"

text \<open>
  The operands of \<open>sum(angle_history)\<close> in the squat branch, which treats every entry as
  a number. A tuple among the entries makes the branch raise.
\<close>

fun scalars :: "measurement list \<Rightarrow> py_error + real list" where
  "scalars [] = Inr []"
| "scalars (Scalar v # as) = (case scalars as of Inl e \<Rightarrow> Inl e | Inr vs \<Rightarrow> Inr (v # vs))"
| "scalars (Pair l r # as) = Inl EntryError"

text \<open>
  \<open>sum(vs) / n\<close>, where \<open>n\<close> is \<open>len(angle_history)\<close>. When \<open>n\<close> is 0 the sum is the
  integer 0 and the division raises \<open>ZeroDivisionError\<close>.
\<close>

definition average :: "real list \<Rightarrow> nat \<Rightarrow> py_error + real" where
  "average vs n = (if n = 0 then Inl ZeroDivisionError else Inr (sum_list vs / real n))"

text \<open>
  The format specifications \<open>:.1f\<close> and \<open>:.2f\<close>: sign, integer part, a point and \<open>d\<close>
  digits, the value rounded to \<open>d\<close> decimal places and a tie to the even neighbour.
\<close>

definition digit :: "nat \<Rightarrow> char" where
  "digit n = ''0123456789'' ! n"

fun nat_digits :: "nat \<Rightarrow> string" where
  "nat_digits n = (if n < 10 then [digit n] else nat_digits (n div 10) @ [digit (n mod 10)])"

definition round_half_even :: "real \<Rightarrow> int" where
  "round_half_even v =
     (let f = \<lfloor>v\<rfloor>; r = v - of_int f
      in if r < 1 / 2 then f else if 1 / 2 < r then f + 1 else if even f then f else f + 1)"

definition format_f :: "nat \<Rightarrow> real \<Rightarrow> string" where
  "format_f d v =
     (let n = nat (round_half_even (\<bar>v\<bar> * 10 ^ d));
          frac = nat_digits (n mod 10 ^ d)
      in (if v < 0 then ''-'' else []) @ nat_digits (n div 10 ^ d) @ ''.''
         @ replicate (d - length frac) CHR ''0'' @ frac)"

section \<open>The exercise rules\<close>

definition xy :: "(PoseLandmark \<Rightarrow> landmark) \<Rightarrow> PoseLandmark \<Rightarrow> point" where
  "xy landmarks p = (lm_x (landmarks p), lm_y (landmarks p))"

text \<open>The branch \<open>exercise_type == "arm_raise"\<close>.\<close>

definition arm_raise ::
  "(PoseLandmark \<Rightarrow> landmark) \<Rightarrow> measurement list
     \<Rightarrow> py_error + bool \<times> string \<times> measurement list"
where
  "arm_raise landmarks angle_history =
     (let left_angle = calculate_angle (xy landmarks LEFT_SHOULDER) (xy landmarks LEFT_ELBOW)
                         (xy landmarks LEFT_WRIST);
          right_angle = calculate_angle (xy landmarks RIGHT_SHOULDER) (xy landmarks RIGHT_ELBOW)
                          (xy landmarks RIGHT_WRIST);
          h = push_history (Pair left_angle right_angle) angle_history
      in case components 0 h of Inl e \<Rightarrow> Inl e | Inr ls \<Rightarrow>
         (case average ls (length h) of Inl e \<Rightarrow> Inl e | Inr avg_left \<Rightarrow>
         (case components 1 h of Inl e \<Rightarrow> Inl e | Inr rs \<Rightarrow>
         (case average rs (length h) of Inl e \<Rightarrow> Inl e | Inr avg_right \<Rightarrow>
            if 160 < avg_left \<and> 160 < avg_right
            then Inr (True, ''Arms raised correctly'', h)
            else Inr (False,
                   ''Raise both arms higher (L: '' @ format_f 1 avg_left @ '', R: ''
                     @ format_f 1 avg_right @ '')'', h)))))"

text \<open>The branch \<open>exercise_type == "squat"\<close>.\<close>

definition squat ::
  "(PoseLandmark \<Rightarrow> landmark) \<Rightarrow> measurement list
     \<Rightarrow> py_error + bool \<times> string \<times> measurement list"
where
  "squat landmarks angle_history =
     (let knee_angle = calculate_angle (xy landmarks LEFT_HIP) (xy landmarks LEFT_KNEE)
                         (xy landmarks LEFT_ANKLE);
          h = push_history (Scalar knee_angle) angle_history
      in case scalars h of Inl e \<Rightarrow> Inl e | Inr vs \<Rightarrow>
         (case average vs (length h) of Inl e \<Rightarrow> Inl e | Inr avg_angle \<Rightarrow>
            if 80 < avg_angle \<and> avg_angle < 100
            then Inr (True, ''Good squat form (Angle: '' @ format_f 1 avg_angle @ '')'', h)
            else if 100 \<le> avg_angle
            then Inr (False, ''Squat lower (Angle: '' @ format_f 1 avg_angle @ '')'', h)
            else Inr (False,
                   ''Don'' @ [CHR 0x27] @ ''t squat too low (Angle: '' @ format_f 1 avg_angle
                     @ '')'', h)))"

text \<open>The branch \<open>exercise_type == "shoulder_shrug"\<close>.\<close>

definition shoulder_shrug ::
  "(PoseLandmark \<Rightarrow> landmark) \<Rightarrow> measurement list
     \<Rightarrow> py_error + bool \<times> string \<times> measurement list"
where
  "shoulder_shrug landmarks angle_history =
     (let left_shoulder = lm_y (landmarks LEFT_SHOULDER);
          right_shoulder = lm_y (landmarks RIGHT_SHOULDER);
          left_ear = lm_y (landmarks LEFT_EAR);
          right_ear = lm_y (landmarks RIGHT_EAR);
          left_distance = left_ear - left_shoulder;
          right_distance = right_ear - right_shoulder;
          h = push_history (Pair left_distance right_distance) angle_history
      in case components 0 h of Inl e \<Rightarrow> Inl e | Inr ls \<Rightarrow>
         (case average ls (length h) of Inl e \<Rightarrow> Inl e | Inr avg_left \<Rightarrow>
         (case components 1 h of Inl e \<Rightarrow> Inl e | Inr rs \<Rightarrow>
         (case average rs (length h) of Inl e \<Rightarrow> Inl e | Inr avg_right \<Rightarrow>
            if avg_left < 15 / 100 \<and> avg_right < 15 / 100
            then Inr (True, ''Good shoulder shrug'', h)
            else Inr (False,
                   ''Raise shoulders higher (L: '' @ format_f 2 avg_left @ '', R: ''
                     @ format_f 2 avg_right @ '')'', h)))))"

text \<open>
  \<open>verify_exercise(results, exercise_type, angle_history)\<close>. The history is mutated in
  place and returned; the model returns the new history.
\<close>

definition verify_exercise ::
  "results \<Rightarrow> string \<Rightarrow> measurement list \<Rightarrow> py_error + bool \<times> string \<times> measurement list"
where
  "verify_exercise res exercise_type angle_history =
     (case pose_landmarks res of
        None \<Rightarrow> Inr (False, ''No pose detected'', angle_history)
      | Some landmarks \<Rightarrow>
          if exercise_type = ''arm_raise'' then arm_raise landmarks angle_history
          else if exercise_type = ''squat'' then squat landmarks angle_history
          else if exercise_type = ''shoulder_shrug'' then shoulder_shrug landmarks angle_history
          else if exercise_type \<in> set [''leg_raise'', ''knee_extension'']
          then Inr (False, ''Unable to detect '' @ exercise_type @ '' properly'', angle_history)
          else Inr (False, ''Unknown exercise type'', angle_history))"

section \<open>The session loop\<close>

definition exercises :: "string list" where
  "exercises = [''arm_raise'', ''squat'', ''leg_raise'', ''shoulder_shrug'', ''knee_extension'']"

text \<open>
  The local variables of \<open>main\<close> that live across loop iterations; the field \<open>history\<close>
  is the variable \<open>angle_history\<close>.
\<close>

record session =
  current_exercise :: nat
  rep_count :: int
  exercise_state :: bool
  history :: "measurement list"

text \<open>The session as \<open>main\<close> initialises it before the loop.\<close>

definition initial_session :: session where
  "initial_session =
     \<lparr>current_exercise = 0, rep_count = 0, exercise_state = False, history = []\<rparr>"

text \<open>
  The block under \<open># Count reps\<close>:
  \<^verbatim>\<open>
  if is_correct:
      if not exercise_state:
          exercise_state = True
      elif exercise_state:
          rep_count += 1
          exercise_state = False
  \<close>
\<close>

definition count_reps :: "bool \<Rightarrow> session \<Rightarrow> session" where
  "count_reps is_correct s =
     (if is_correct then
        (if \<not> exercise_state s then s\<lparr>exercise_state := True\<rparr>
         else if exercise_state s
         then s\<lparr>rep_count := rep_count s + 1, exercise_state := False\<rparr>
         else s)
      else s)"

text \<open>
  The branch of the key handler for \<open>'n'\<close>:
  \<^verbatim>\<open>
  current_exercise = (current_exercise + 1) % len(exercises)
  rep_count = 0
  angle_history.clear()
  \<close>
\<close>

definition switch_exercise :: "session \<Rightarrow> session" where
  "switch_exercise s =
     s\<lparr>current_exercise := (current_exercise s + 1) mod length exercises,
       rep_count := 0,
       history := []\<rparr>"

text \<open>
  One iteration of the loop on a frame that was read: evaluate the frame against the
  current exercise, count, and handle the key. The result is the feedback shown and the
  session for the next iteration, or \<open>None\<close> for the session when the loop ends on
  \<open>'q'\<close>. An exception of the evaluation leaves \<open>main\<close>.
\<close>

datatype key = KeyQ | KeyN | KeyOther

definition loop_body :: "results \<Rightarrow> key \<Rightarrow> session \<Rightarrow> py_error + string \<times> session option" where
  "loop_body res k s =
     (case verify_exercise res (exercises ! current_exercise s) (history s) of
        Inl e \<Rightarrow> Inl e
      | Inr (is_correct, feedback, h) \<Rightarrow>
          (let s1 = count_reps is_correct (s\<lparr>history := h\<rparr>)
           in case k of
                KeyQ \<Rightarrow> Inr (feedback, None)
              | KeyN \<Rightarrow> Inr (feedback, Some (switch_exercise s1))
              | KeyOther \<Rightarrow> Inr (feedback, Some s1)))"

text \<open>
  The counter run over the verdicts of successive frames, oldest first: the pair
  \<open>(rep_count, exercise_state)\<close> after each frame.
\<close>

fun count_trace :: "bool list \<Rightarrow> session \<Rightarrow> (int \<times> bool) list" where
  "count_trace [] s = []"
| "count_trace (v # vs) s =
     (let s' = count_reps v s in (rep_count s', exercise_state s') # count_trace vs s')"

section \<open>A sample pose\<close>

text \<open>
  A landmark set used to evaluate the rules on a concrete frame. Both arms are straight
  (elbow angles of 180 degrees), the left knee is bent at a right angle, and ears and
  shoulders are level.
\<close>

definition sample_pose :: "PoseLandmark \<Rightarrow> landmark" where
  "sample_pose p =
     (case p of
        LEFT_SHOULDER \<Rightarrow> \<lparr>lm_x = 0, lm_y = 0\<rparr>
      | LEFT_ELBOW \<Rightarrow> \<lparr>lm_x = 1 / 2, lm_y = 0\<rparr>
      | LEFT_WRIST \<Rightarrow> \<lparr>lm_x = 1, lm_y = 0\<rparr>
      | RIGHT_SHOULDER \<Rightarrow> \<lparr>lm_x = 0, lm_y = 0\<rparr>
      | RIGHT_ELBOW \<Rightarrow> \<lparr>lm_x = 1 / 2, lm_y = 0\<rparr>
      | RIGHT_WRIST \<Rightarrow> \<lparr>lm_x = 1, lm_y = 0\<rparr>
      | LEFT_HIP \<Rightarrow> \<lparr>lm_x = 0, lm_y = 0\<rparr>
      | LEFT_KNEE \<Rightarrow> \<lparr>lm_x = 1, lm_y = 0\<rparr>
      | LEFT_ANKLE \<Rightarrow> \<lparr>lm_x = 1, lm_y = 1\<rparr>
      | LEFT_EAR \<Rightarrow> \<lparr>lm_x = 0, lm_y = 0\<rparr>
      | RIGHT_EAR \<Rightarrow> \<lparr>lm_x = 0, lm_y = 0\<rparr>)"

declare nat_digits.simps [simp del]

section \<open>Evaluation on concrete values\<close>

lemma sample_pose_angles:
  "calculate_angle (xy sample_pose LEFT_SHOULDER) (xy sample_pose LEFT_ELBOW)
     (xy sample_pose LEFT_WRIST) = 180"
  "calculate_angle (xy sample_pose RIGHT_SHOULDER) (xy sample_pose RIGHT_ELBOW)
     (xy sample_pose RIGHT_WRIST) = 180"
  "calculate_angle (xy sample_pose LEFT_HIP) (xy sample_pose LEFT_KNEE)
     (xy sample_pose LEFT_ANKLE) = 90"
  by (simp_all add: calculate_angle_def arctan2_def xy_def sample_pose_def Let_def)

lemma format_f_examples:
  "format_f (Suc 0) 90 = ''90.0''"
  "format_f (Suc 0) 100 = ''100.0''"
  "format_f (Suc 0) 105 = ''105.0''"
  "format_f (Suc 0) 150 = ''150.0''"
  "format_f (Suc 0) 175 = ''175.0''"
  "format_f (Suc 0) (315 / 2) = ''157.5''"
  "format_f 2 (- 1 / 8) = ''-0.12''"
  "format_f 2 (1 / 100) = ''0.01''"
  by (simp_all add: format_f_def round_half_even_def Let_def digit_def nat_digits.simps)

section \<open>The bounded history\<close>

lemma tl_conv_drop: "tl xs = drop (Suc 0) xs"
  by (cases xs) simp_all

lemma push_history_eq:
  "length h \<le> 10 \<Longrightarrow> push_history m h = drop (length h + 1 - 10) (h @ [m])"
  by (cases "length h = 10")
    (auto simp: push_history_def deque_append_def popleft_def maxlen_def Let_def tl_conv_drop)

lemma length_push_history: "length h \<le> 10 \<Longrightarrow> length (push_history m h) \<le> 10"
  by (simp add: push_history_eq)

lemma length_push_history_pos: "1 \<le> length (push_history m h)"
  by (auto simp: push_history_def deque_append_def popleft_def maxlen_def Let_def)

lemma map_push_history: "map f (push_history m h) = push_history (f m) (map f h)"
  by (simp add: push_history_def deque_append_def popleft_def Let_def map_tl)

lemma fold_push_history:
  "length h \<le> 10 \<Longrightarrow> fold push_history ms h = drop (length h + length ms - 10) (h @ ms)"
proof (induction ms arbitrary: h)
  case Nil
  then show ?case by simp
next
  case (Cons m ms)
  have "fold push_history (m # ms) h = fold push_history ms (push_history m h)" by simp
  also have "\<dots> = drop (length (push_history m h) + length ms - 10) (push_history m h @ ms)"
    using Cons.prems by (intro Cons.IH length_push_history)
  also have "\<dots> = drop (length h + length (m # ms) - 10) (h @ m # ms)"
    using Cons.prems by (cases "length h = 10") (auto simp: push_history_eq)
  finally show ?case .
qed

lemma fold_push_history_empty: "fold push_history ms [] = drop (length ms - 10) ms"
  using fold_push_history [of "[]" ms] by simp

text \<open>
  C6. A history that starts empty never holds more than 10 entries, whatever is pushed:
  it holds the last 10 pushed entries in the order they were pushed. After 11 pushes
  these are the entries 2 to 11; the first one is gone.
\<close>

theorem history_bounded_fifo:
  "length (fold push_history ms []) \<le> 10
   \<and> fold push_history ms [] = drop (length ms - 10) ms
   \<and> fold push_history [m1, m2, m3, m4, m5, m6, m7, m8, m9, m10, m11] []
       = [m2, m3, m4, m5, m6, m7, m8, m9, m10, m11]"
proof (intro conjI)
  show "length (fold push_history ms []) \<le> 10"
    by (subst fold_push_history_empty) simp
  show "fold push_history ms [] = drop (length ms - 10) ms"
    by (rule fold_push_history_empty)
  show "fold push_history [m1, m2, m3, m4, m5, m6, m7, m8, m9, m10, m11] []
       = [m2, m3, m4, m5, m6, m7, m8, m9, m10, m11]"
    by (subst fold_push_history_empty) simp
qed

theorem history_bounded_fifo_witness:
  "fold push_history [1, 2, 3, 4, 5, 6, 7, 8, 9, 10, 11, 12 :: nat] []
     = [3, 4, 5, 6, 7, 8, 9, 10, 11, 12]"
proof -
  have "fold push_history [1, 2, 3, 4, 5, 6, 7, 8, 9, 10, 11, 12 :: nat] []
     = drop (length [1, 2, 3, 4, 5, 6, 7, 8, 9, 10, 11, 12 :: nat] - 10)
         [1, 2, 3, 4, 5, 6, 7, 8, 9, 10, 11, 12]"
    by (rule history_bounded_fifo [THEN conjunct2, THEN conjunct1])
  also have "\<dots> = [3, 4, 5, 6, 7, 8, 9, 10, 11, 12]"
    by simp
  finally show ?thesis .
qed

section \<open>The angle calculator\<close>

lemma arctan2_bounds: "- pi < arctan2 y x \<and> arctan2 y x \<le> pi"
proof -
  have lo: "- (pi / 2) < arctan (y / x)" by (rule arctan_lbound)
  have hi: "arctan (y / x) < pi / 2" by (rule arctan_ubound)
  have neg: "arctan (y / x) \<le> 0" if "x < 0" "0 \<le> y"
    using that by (simp add: arctan_le_zero_iff divide_nonneg_neg)
  have pos: "0 < arctan (y / x)" if "x < 0" "y < 0"
    using that by (simp add: zero_less_arctan_iff divide_neg_neg)
  show ?thesis
    using lo hi neg pos pi_gt_zero by (auto simp: arctan2_def)
qed

lemma degrees_bound:
  fixes r :: real
  assumes "\<bar>r\<bar> \<le> 2 * pi"
  shows "\<bar>r * 180 / pi\<bar> \<le> 360"
proof -
  have "\<bar>r * 180 / pi\<bar> = \<bar>r\<bar> * 180 / pi"
    by (simp add: abs_mult)
  also have "\<dots> \<le> 360"
    using assms pi_gt_zero by (simp add: pos_divide_le_eq)
  finally show ?thesis .
qed

lemma calculate_angle_range: "0 \<le> calculate_angle a b c \<and> calculate_angle a b c \<le> 180"
proof -
  define r where "r = arctan2 (snd c - snd b) (fst c - fst b)
                      - arctan2 (snd a - snd b) (fst a - fst b)"
  have "\<bar>r\<bar> \<le> 2 * pi"
    using arctan2_bounds [of "snd c - snd b" "fst c - fst b"]
      arctan2_bounds [of "snd a - snd b" "fst a - fst b"]
    unfolding r_def by linarith
  then have "\<bar>r * 180 / pi\<bar> \<le> 360" by (rule degrees_bound)
  moreover have "0 \<le> \<bar>r * 180 / pi\<bar>" by simp
  ultimately show ?thesis
    unfolding calculate_angle_def Let_def r_def [symmetric] by auto
qed

text \<open>
  C8. For every three points the calculated angle lies between 0 and 180 degrees, and it
  is 0 whenever the first and the third point are the same, also when all three points
  coincide. The function is total: no triple of points is an error.
\<close>

theorem calculate_angle_in_range:
  "0 \<le> calculate_angle a b c \<and> calculate_angle a b c \<le> 180
   \<and> calculate_angle a b a = 0 \<and> calculate_angle a a a = 0"
  using calculate_angle_range [of a b c] by (simp add: calculate_angle_def)

theorem calculate_angle_in_range_witness:
  "calculate_angle (0, 0) (1, 0) (1, 1) \<le> 180 \<and> calculate_angle (0, 0) (1, 0) (0, 0) = 0"
  using calculate_angle_in_range [of "(0, 0)" "(1, 0)" "(1, 1)"]
    calculate_angle_in_range [of "(0, 0)" "(1, 0)" "(0, 0)"]
  by blast

section \<open>The repetition counter and the exercise switch\<close>

lemma length_exercises: "length exercises = 5"
  by (simp add: exercises_def)

lemma count_reps_False: "count_reps False s = s"
  by (simp add: count_reps_def)

lemma count_reps_True:
  "count_reps True s =
     (if exercise_state s then s\<lparr>rep_count := rep_count s + 1, exercise_state := False\<rparr>
      else s\<lparr>exercise_state := True\<rparr>)"
  by (simp add: count_reps_def)

lemma rep_count_count_reps:
  "rep_count (count_reps v s) = (if v \<and> exercise_state s then rep_count s + 1 else rep_count s)"
  by (simp add: count_reps_def)

lemma rep_count_fold_count_reps: "rep_count s \<le> rep_count (fold count_reps vs s)"
proof (induction vs arbitrary: s)
  case Nil
  show ?case by simp
next
  case (Cons v vs)
  have "rep_count s \<le> rep_count (count_reps v s)"
    by (simp add: rep_count_count_reps)
  also have "\<dots> \<le> rep_count (fold count_reps vs (count_reps v s))"
    by (rule Cons.IH)
  finally show ?case by simp
qed

lemma switch_exercise_resets:
  "current_exercise (switch_exercise s) = (current_exercise s + 1) mod 5"
  "rep_count (switch_exercise s) = 0"
  "history (switch_exercise s) = []"
  by (simp_all add: switch_exercise_def length_exercises)

lemma switch_exercise_in_range: "current_exercise (switch_exercise s) < length exercises"
  by (simp add: switch_exercise_def length_exercises)

lemma switch_exercise_exercise_state:
  "exercise_state (switch_exercise s) = exercise_state s"
  by (simp add: switch_exercise_def)

text \<open>
  C2. The counter is a two-state toggle. A false verdict changes nothing. A true verdict
  in the idle state arms the counter and leaves the count; a true verdict in the armed
  state adds 1 to the count and returns to idle. The session starts idle with count 0,
  and on the verdicts false, true, true, false, true, true the count is
  0, 0, 1, 1, 1, 2: the false verdict in fourth place neither changes the count nor the
  state, the fifth verdict arms the counter again, and the sixth counts the second
  repetition.
\<close>

theorem count_reps_toggle:
  "count_reps False s = s
   \<and> count_reps True s =
       (if exercise_state s
        then s\<lparr>rep_count := rep_count s + 1, exercise_state := False\<rparr>
        else s\<lparr>exercise_state := True\<rparr>)
   \<and> rep_count initial_session = 0 \<and> exercise_state initial_session = False
   \<and> count_trace [False, True, True, False, True, True] initial_session
       = [(0, False), (0, True), (1, False), (1, False), (1, True), (2, False)]"
  by (simp add: count_reps_False count_reps_True initial_session_def Let_def)

theorem count_reps_toggle_witness:
  "count_reps True initial_session = initial_session\<lparr>exercise_state := True\<rparr>
   \<and> count_reps True (initial_session\<lparr>exercise_state := True\<rparr>)
       = initial_session\<lparr>rep_count := 1, exercise_state := False\<rparr>"
  using count_reps_toggle [of initial_session]
    count_reps_toggle [of "initial_session\<lparr>exercise_state := True\<rparr>"]
  by (simp add: initial_session_def)

text \<open>
  C9. A frame's verdict never lowers the repetition count: the count after the frame is
  the count before it plus 1 when the verdict is true and the counter is armed, and the
  count before it otherwise. Hence the count never decreases over any run of verdicts.
\<close>

theorem rep_count_monotone:
  "rep_count s \<le> rep_count (count_reps v s)
   \<and> rep_count (count_reps v s)
       = (if v \<and> exercise_state s then rep_count s + 1 else rep_count s)
   \<and> rep_count s \<le> rep_count (fold count_reps vs s)"
  by (simp add: rep_count_count_reps rep_count_fold_count_reps)

theorem rep_count_monotone_witness:
  "rep_count initial_session \<le> rep_count (fold count_reps [True, True, False] initial_session)
   \<and> rep_count (count_reps True (initial_session\<lparr>exercise_state := True\<rparr>)) = 1"
  using rep_count_monotone [of initial_session True "[True, True, False]"]
    rep_count_monotone [of "initial_session\<lparr>exercise_state := True\<rparr>" True "[]"]
  by (simp add: initial_session_def)

section \<open>The exercise rules\<close>

lemma scalars_map_Scalar: "scalars (map Scalar vs) = Inr vs"
  by (induction vs) simp_all

lemma components_map_Pair:
  "components 0 (map (\<lambda>(l, r). Pair l r) ps) = Inr (map fst ps)"
  "components 1 (map (\<lambda>(l, r). Pair l r) ps) = Inr (map snd ps)"
  "components (Suc 0) (map (\<lambda>(l, r). Pair l r) ps) = Inr (map snd ps)"
  by (induction ps) (simp_all add: case_prod_unfold)

lemma average_length:
  "xs \<noteq> [] \<Longrightarrow> average vs (length xs) = Inr (sum_list vs / real (length xs))"
  by (simp add: average_def)

lemma average_ZeroDivisionError: "average vs n = Inl ZeroDivisionError \<longleftrightarrow> n = 0"
  by (simp add: average_def)

lemma components_error: "components i h = Inl e \<Longrightarrow> e = EntryError"
proof (induction h)
  case Nil
  then show ?case by simp
next
  case (Cons a h)
  then show ?case
    by (cases a) (auto split: sum.splits if_splits)
qed

lemma scalars_error: "scalars h = Inl e \<Longrightarrow> e = EntryError"
  by (induction h rule: scalars.induct) (auto split: sum.splits)

lemma push_history_nonempty: "push_history m h \<noteq> []"
  using length_push_history_pos [of m h] by auto

text \<open>
  A history left over from another exercise makes the rule raise; \<open>main\<close> clears the
  history on every switch, so the rules only meet entries of their own shape.
\<close>

lemma squat_wrong_shape: "squat landmarks [Pair l r] = Inl EntryError"
  by (simp add: squat_def push_history_eq)

lemma arm_raise_wrong_shape: "arm_raise landmarks [Scalar v] = Inl EntryError"
  by (simp add: arm_raise_def push_history_eq)

lemma squat_map_Scalar:
  "squat landmarks (map Scalar vs) =
     (let knee_angle = calculate_angle (xy landmarks LEFT_HIP) (xy landmarks LEFT_KNEE)
                         (xy landmarks LEFT_ANKLE);
          vs' = push_history knee_angle vs;
          avg = sum_list vs' / real (length vs')
      in Inr (80 < avg \<and> avg < 100,
              (if 100 \<le> avg then ''Squat lower (Angle: '' @ format_f 1 avg @ '')''
               else if avg \<le> 80
               then ''Don'' @ [CHR 0x27] @ ''t squat too low (Angle: '' @ format_f 1 avg @ '')''
               else ''Good squat form (Angle: '' @ format_f 1 avg @ '')''),
              map Scalar vs'))"
proof -
  define k where "k = calculate_angle (xy landmarks LEFT_HIP) (xy landmarks LEFT_KNEE)
                         (xy landmarks LEFT_ANKLE)"
  define vs' where "vs' = push_history k vs"
  have h: "push_history (Scalar k) (map Scalar vs) = map Scalar vs'"
    by (simp add: vs'_def map_push_history)
  have n: "map Scalar vs' \<noteq> []"
    unfolding vs'_def by (simp add: push_history_nonempty)
  show ?thesis
    unfolding squat_def Let_def k_def [symmetric] h vs'_def [symmetric]
    using average_length [OF n] by (simp add: scalars_map_Scalar not_less)
qed

text \<open>
  C3. With a pose present and a history of squat measurements, the squat rule pushes the
  left hip-knee-ankle angle, averages the history, and returns without an exception:
  the verdict is true exactly when the average is strictly between 80 and 100, the
  feedback is the squat-lower message when the average is at least 100 and the
  too-low message when it is at most 80, and the returned history is the pushed one.
\<close>

theorem squat_verdict:
  "verify_exercise \<lparr>pose_landmarks = Some landmarks\<rparr> ''squat'' (map Scalar vs) =
     (let knee_angle = calculate_angle (xy landmarks LEFT_HIP) (xy landmarks LEFT_KNEE)
                         (xy landmarks LEFT_ANKLE);
          vs' = push_history knee_angle vs;
          avg = sum_list vs' / real (length vs')
      in Inr (80 < avg \<and> avg < 100,
              (if 100 \<le> avg then ''Squat lower (Angle: '' @ format_f 1 avg @ '')''
               else if avg \<le> 80
               then ''Don'' @ [CHR 0x27] @ ''t squat too low (Angle: '' @ format_f 1 avg @ '')''
               else ''Good squat form (Angle: '' @ format_f 1 avg @ '')''),
              map Scalar vs'))"
  by (simp add: verify_exercise_def squat_map_Scalar)

theorem squat_verdict_witness:
  "verify_exercise \<lparr>pose_landmarks = Some sample_pose\<rparr> ''squat'' []
     = Inr (True, ''Good squat form (Angle: 90.0)'', [Scalar 90])
   \<and> verify_exercise \<lparr>pose_landmarks = Some sample_pose\<rparr> ''squat'' [Scalar 110]
     = Inr (False, ''Squat lower (Angle: 100.0)'', [Scalar 110, Scalar 90])
   \<and> verify_exercise \<lparr>pose_landmarks = Some sample_pose\<rparr> ''squat'' [Scalar 120]
     = Inr (False, ''Squat lower (Angle: 105.0)'', [Scalar 120, Scalar 90])"
  using squat_verdict [of sample_pose "[]"] squat_verdict [of sample_pose "[110]"]
    squat_verdict [of sample_pose "[120]"]
  by (simp add: sample_pose_angles push_history_eq format_f_examples)

lemma arm_raise_map_Pair:
  "arm_raise landmarks (map (\<lambda>(l, r). Pair l r) ps) =
     (let left_angle = calculate_angle (xy landmarks LEFT_SHOULDER) (xy landmarks LEFT_ELBOW)
                         (xy landmarks LEFT_WRIST);
          right_angle = calculate_angle (xy landmarks RIGHT_SHOULDER) (xy landmarks RIGHT_ELBOW)
                          (xy landmarks RIGHT_WRIST);
          ps' = push_history (left_angle, right_angle) ps;
          avg_left = sum_list (map fst ps') / real (length ps');
          avg_right = sum_list (map snd ps') / real (length ps')
      in Inr (160 < avg_left \<and> 160 < avg_right,
              (if avg_left \<le> 160 \<or> avg_right \<le> 160
               then ''Raise both arms higher (L: '' @ format_f 1 avg_left @ '', R: ''
                      @ format_f 1 avg_right @ '')''
               else ''Arms raised correctly''),
              map (\<lambda>(l, r). Pair l r) ps'))"
proof -
  define la where "la = calculate_angle (xy landmarks LEFT_SHOULDER) (xy landmarks LEFT_ELBOW)
                         (xy landmarks LEFT_WRIST)"
  define ra where "ra = calculate_angle (xy landmarks RIGHT_SHOULDER) (xy landmarks RIGHT_ELBOW)
                          (xy landmarks RIGHT_WRIST)"
  define ps' where "ps' = push_history (la, ra) ps"
  have h: "push_history (Pair la ra) (map (\<lambda>(l, r). Pair l r) ps) = map (\<lambda>(l, r). Pair l r) ps'"
    by (simp add: ps'_def map_push_history)
  have n: "map (\<lambda>(l, r). Pair l r) ps' \<noteq> []"
    unfolding ps'_def by (simp add: push_history_nonempty)
  show ?thesis
    unfolding arm_raise_def Let_def la_def [symmetric] ra_def [symmetric] h ps'_def [symmetric]
    using average_length [OF n] by (simp add: components_map_Pair not_less)
qed

text \<open>
  C7. With a pose present and a history of arm-raise measurements, the arm-raise rule
  pushes the pair of elbow angles (left and right shoulder-elbow-wrist), averages each
  component over the history, and returns without an exception: the verdict is true
  exactly when both averages are strictly greater than 160, and when either average is
  at most 160 the feedback gives both averages formatted with one decimal place.
\<close>

theorem arm_raise_verdict:
  "verify_exercise \<lparr>pose_landmarks = Some landmarks\<rparr> ''arm_raise''
       (map (\<lambda>(l, r). Pair l r) ps) =
     (let left_angle = calculate_angle (xy landmarks LEFT_SHOULDER) (xy landmarks LEFT_ELBOW)
                         (xy landmarks LEFT_WRIST);
          right_angle = calculate_angle (xy landmarks RIGHT_SHOULDER) (xy landmarks RIGHT_ELBOW)
                          (xy landmarks RIGHT_WRIST);
          ps' = push_history (left_angle, right_angle) ps;
          avg_left = sum_list (map fst ps') / real (length ps');
          avg_right = sum_list (map snd ps') / real (length ps')
      in Inr (160 < avg_left \<and> 160 < avg_right,
              (if avg_left \<le> 160 \<or> avg_right \<le> 160
               then ''Raise both arms higher (L: '' @ format_f 1 avg_left @ '', R: ''
                      @ format_f 1 avg_right @ '')''
               else ''Arms raised correctly''),
              map (\<lambda>(l, r). Pair l r) ps'))"
  by (simp add: verify_exercise_def arm_raise_map_Pair)

theorem arm_raise_verdict_witness:
  "verify_exercise \<lparr>pose_landmarks = Some sample_pose\<rparr> ''arm_raise'' [Pair 170 170]
     = Inr (True, ''Arms raised correctly'', [Pair 170 170, Pair 180 180])
   \<and> verify_exercise \<lparr>pose_landmarks = Some sample_pose\<rparr> ''arm_raise'' [Pair 120 170]
     = Inr (False, ''Raise both arms higher (L: 150.0, R: 175.0)'',
            [Pair 120 170, Pair 180 180])"
  using arm_raise_verdict [of sample_pose "[(170, 170)]"]
    arm_raise_verdict [of sample_pose "[(120, 170)]"]
  by (simp add: sample_pose_angles push_history_eq format_f_examples)

text \<open>
  C4. When no pose was detected, the evaluation of any exercise type on any history
  returns, without an exception, the verdict false with the feedback
  \<open>No pose detected\<close>, and the history as it was.
\<close>

theorem no_pose_detected:
  "verify_exercise \<lparr>pose_landmarks = None\<rparr> exercise_type h
     = Inr (False, ''No pose detected'', h)"
  by (simp add: verify_exercise_def)

theorem no_pose_detected_witness:
  "verify_exercise \<lparr>pose_landmarks = None\<rparr> ''squat'' [Pair 170 170, Scalar 90]
     = Inr (False, ''No pose detected'', [Pair 170 170, Scalar 90])"
  by (rule no_pose_detected)

text \<open>
  C5, as the code has it. For \<open>leg_raise\<close> and \<open>knee_extension\<close> the evaluation
  returns the verdict false and the history as it was, for every result of the pose
  estimator and every history. The feedback is \<open>Unable to detect <kind> properly\<close> when
  a pose is present; when no pose was detected it is \<open>No pose detected\<close>, since that
  check comes before the dispatch on the exercise type.
\<close>

theorem unverifiable_kinds:
  "verify_exercise res ''leg_raise'' h
     = Inr (False,
            (if pose_landmarks res = None then ''No pose detected''
             else ''Unable to detect leg_raise properly''), h)
   \<and> verify_exercise res ''knee_extension'' h
     = Inr (False,
            (if pose_landmarks res = None then ''No pose detected''
             else ''Unable to detect knee_extension properly''), h)"
  by (simp add: verify_exercise_def split: option.splits)

theorem unverifiable_kinds_witness:
  "verify_exercise \<lparr>pose_landmarks = Some sample_pose\<rparr> ''leg_raise'' [Scalar 90]
     = Inr (False, ''Unable to detect leg_raise properly'', [Scalar 90])
   \<and> verify_exercise \<lparr>pose_landmarks = Some sample_pose\<rparr> ''knee_extension'' []
     = Inr (False, ''Unable to detect knee_extension properly'', [])"
  using unverifiable_kinds [of "\<lparr>pose_landmarks = Some sample_pose\<rparr>" "[Scalar 90]"]
    unverifiable_kinds [of "\<lparr>pose_landmarks = Some sample_pose\<rparr>" "[]"]
  by simp

text \<open>
  C5, as stated, fails when no pose was detected: the feedback for \<open>leg_raise\<close> is then
  \<open>No pose detected\<close>, not \<open>Unable to detect leg_raise properly\<close>.
\<close>

theorem unverifiable_kinds_counterexample:
  "verify_exercise \<lparr>pose_landmarks = None\<rparr> ''leg_raise'' []
     = Inr (False, ''No pose detected'', [])
   \<and> verify_exercise \<lparr>pose_landmarks = None\<rparr> ''leg_raise'' []
     \<noteq> Inr (False, ''Unable to detect leg_raise properly'', [])"
  by (simp add: verify_exercise_def)

lemma arm_raise_no_ZeroDivisionError: "arm_raise landmarks h \<noteq> Inl ZeroDivisionError"
proof -
  define m where "m = Pair
      (calculate_angle (xy landmarks LEFT_SHOULDER) (xy landmarks LEFT_ELBOW)
         (xy landmarks LEFT_WRIST))
      (calculate_angle (xy landmarks RIGHT_SHOULDER) (xy landmarks RIGHT_ELBOW)
         (xy landmarks RIGHT_WRIST))"
  define h' where "h' = push_history m h"
  have avg: "average vs (length h') = Inr (sum_list vs / real (length h'))" for vs
    unfolding h'_def by (rule average_length) (rule push_history_nonempty)
  have c: "components i h' \<noteq> Inl ZeroDivisionError" for i
    using components_error [of i h' ZeroDivisionError] by auto
  have "arm_raise landmarks h =
      (case components 0 h' of Inl e \<Rightarrow> Inl e | Inr ls \<Rightarrow>
         (case components 1 h' of Inl e \<Rightarrow> Inl e | Inr rs \<Rightarrow>
            if 160 < sum_list ls / real (length h') \<and> 160 < sum_list rs / real (length h')
            then Inr (True, ''Arms raised correctly'', h')
            else Inr (False,
                   ''Raise both arms higher (L: '' @ format_f 1 (sum_list ls / real (length h'))
                     @ '', R: '' @ format_f 1 (sum_list rs / real (length h')) @ '')'', h')))"
    unfolding arm_raise_def Let_def m_def [symmetric] h'_def [symmetric] avg
    by (simp split: sum.splits)
  then show ?thesis
    using c [of 0] c [of 1] by (simp split: sum.splits)
qed

lemma shoulder_shrug_no_ZeroDivisionError:
  "shoulder_shrug landmarks h \<noteq> Inl ZeroDivisionError"
proof -
  define m where "m = Pair (lm_y (landmarks LEFT_EAR) - lm_y (landmarks LEFT_SHOULDER))
      (lm_y (landmarks RIGHT_EAR) - lm_y (landmarks RIGHT_SHOULDER))"
  define h' where "h' = push_history m h"
  have avg: "average vs (length h') = Inr (sum_list vs / real (length h'))" for vs
    unfolding h'_def by (rule average_length) (rule push_history_nonempty)
  have c: "components i h' \<noteq> Inl ZeroDivisionError" for i
    using components_error [of i h' ZeroDivisionError] by auto
  have "shoulder_shrug landmarks h =
      (case components 0 h' of Inl e \<Rightarrow> Inl e | Inr ls \<Rightarrow>
         (case components 1 h' of Inl e \<Rightarrow> Inl e | Inr rs \<Rightarrow>
            if sum_list ls / real (length h') < 15 / 100 \<and> sum_list rs / real (length h') < 15 / 100
            then Inr (True, ''Good shoulder shrug'', h')
            else Inr (False,
                   ''Raise shoulders higher (L: '' @ format_f 2 (sum_list ls / real (length h'))
                     @ '', R: '' @ format_f 2 (sum_list rs / real (length h')) @ '')'', h')))"
    unfolding shoulder_shrug_def Let_def m_def [symmetric] h'_def [symmetric] avg
    by (simp split: sum.splits)
  then show ?thesis
    using c [of 0] c [of 1] by (simp split: sum.splits)
qed

lemma squat_no_ZeroDivisionError: "squat landmarks h \<noteq> Inl ZeroDivisionError"
proof -
  define m where "m = Scalar (calculate_angle (xy landmarks LEFT_HIP) (xy landmarks LEFT_KNEE)
      (xy landmarks LEFT_ANKLE))"
  define h' where "h' = push_history m h"
  have avg: "average vs (length h') = Inr (sum_list vs / real (length h'))" for vs
    unfolding h'_def by (rule average_length) (rule push_history_nonempty)
  have c: "scalars h' \<noteq> Inl ZeroDivisionError"
    using scalars_error [of h' ZeroDivisionError] by auto
  have "squat landmarks h =
      (case scalars h' of Inl e \<Rightarrow> Inl e | Inr vs \<Rightarrow>
         Inr (80 < sum_list vs / real (length h') \<and> sum_list vs / real (length h') < 100,
              (if 80 < sum_list vs / real (length h') \<and> sum_list vs / real (length h') < 100
               then ''Good squat form (Angle: '' @ format_f 1 (sum_list vs / real (length h'))
                      @ '')''
               else if 100 \<le> sum_list vs / real (length h')
               then ''Squat lower (Angle: '' @ format_f 1 (sum_list vs / real (length h')) @ '')''
               else ''Don'' @ [CHR 0x27] @ ''t squat too low (Angle: ''
                      @ format_f 1 (sum_list vs / real (length h')) @ '')''), h'))"
    unfolding squat_def Let_def m_def [symmetric] h'_def [symmetric] avg
    by (simp split: sum.splits)
  then show ?thesis
    using c by (simp split: sum.splits)
qed

text \<open>
  C10. Every branch that averages pushes its measurement first, and a push leaves at
  least one entry in the history, also when the history was empty. The division raises
  only for a divisor of 0, so the evaluation never raises \<open>ZeroDivisionError\<close>, for
  any exercise type, pose and history.
\<close>

theorem average_never_divides_by_zero:
  "1 \<le> length (push_history m h) \<and> push_history m [] = [m]
   \<and> (average vs n = Inl ZeroDivisionError \<longleftrightarrow> n = 0)
   \<and> arm_raise landmarks h' \<noteq> Inl ZeroDivisionError
   \<and> squat landmarks h' \<noteq> Inl ZeroDivisionError
   \<and> shoulder_shrug landmarks h' \<noteq> Inl ZeroDivisionError
   \<and> verify_exercise res exercise_type h' \<noteq> Inl ZeroDivisionError"
proof -
  have "verify_exercise res exercise_type h' \<noteq> Inl ZeroDivisionError"
    by (simp add: verify_exercise_def arm_raise_no_ZeroDivisionError
        squat_no_ZeroDivisionError shoulder_shrug_no_ZeroDivisionError split: option.splits)
  then show ?thesis
    using length_push_history_pos [of m h] push_history_eq [of "[]" m]
      average_ZeroDivisionError [of vs n]
      arm_raise_no_ZeroDivisionError [of landmarks h'] squat_no_ZeroDivisionError [of landmarks h']
      shoulder_shrug_no_ZeroDivisionError [of landmarks h']
    by simp
qed

theorem average_never_divides_by_zero_witness:
  "squat sample_pose [] \<noteq> Inl ZeroDivisionError
   \<and> verify_exercise \<lparr>pose_landmarks = Some sample_pose\<rparr> ''shoulder_shrug'' []
       \<noteq> Inl ZeroDivisionError"
  using average_never_divides_by_zero
    [of "Scalar 90" "[]" "[]" 0 sample_pose "[]" "\<lparr>pose_landmarks = Some sample_pose\<rparr>"
      "''shoulder_shrug''"]
  by simp

text \<open>
  C1, on the code. One frame with both arms raised arms the counter; the key \<open>'n'\<close> then
  moves to the next exercise, sets the count to 0 and empties the history, but the
  counter stays armed. The first correct frame of the new exercise is therefore counted
  as a repetition.
\<close>

theorem switch_exercise_keeps_armed:
  "loop_body \<lparr>pose_landmarks = Some sample_pose\<rparr> KeyOther initial_session
     = Inr (''Arms raised correctly'',
            Some \<lparr>current_exercise = 0, rep_count = 0, exercise_state = True,
                  history = [Pair 180 180]\<rparr>)
   \<and> switch_exercise \<lparr>current_exercise = 0, rep_count = 0, exercise_state = True,
                       history = [Pair 180 180]\<rparr>
     = \<lparr>current_exercise = 1, rep_count = 0, exercise_state = True, history = []\<rparr>
   \<and> loop_body \<lparr>pose_landmarks = Some sample_pose\<rparr> KeyOther
       \<lparr>current_exercise = 1, rep_count = 0, exercise_state = True, history = []\<rparr>
     = Inr (''Good squat form (Angle: 90.0)'',
            Some \<lparr>current_exercise = 1, rep_count = 1, exercise_state = False,
                  history = [Scalar 90]\<rparr>)"
proof -
  have arms: "verify_exercise \<lparr>pose_landmarks = Some sample_pose\<rparr> ''arm_raise'' []
      = Inr (True, ''Arms raised correctly'', [Pair 180 180])"
    using arm_raise_map_Pair [of sample_pose "[]"]
    by (simp add: verify_exercise_def sample_pose_angles push_history_eq)
  have knee: "verify_exercise \<lparr>pose_landmarks = Some sample_pose\<rparr> ''squat'' []
      = Inr (True, ''Good squat form (Angle: 90.0)'', [Scalar 90])"
    using squat_map_Scalar [of sample_pose "[]"]
    by (simp add: verify_exercise_def sample_pose_angles push_history_eq format_f_examples)
  show ?thesis
    by (simp add: loop_body_def exercises_def initial_session_def arms knee count_reps_def
        switch_exercise_def)
qed

end
